theory Spec2Isabelle
  imports Main
begin

section \<open>JavaScript values, objects and errors\<close>

text \<open>
  The values \<^verbatim>\<open>script.js\<close> handles. An object is the ordered list of its own
  properties; a function is known by an identifier, a socket created by the host's
  \<^verbatim>\<open>WebSocket\<close> constructor by its reference into the store of sockets, and a
  \<^verbatim>\<open>URL\<close> object by its serialization (its \<^verbatim>\<open>href\<close>).
\<close>

datatype jsval =
    JUndefined
  | JNull
  | JBool bool
  | JNum int
  | JStr string
  | JUrl string
  | JFun nat
  | JRef nat
  | JObj "(string \<times> jsval) list"

text \<open>
  What a \<^verbatim>\<open>throw\<close> or a rejected promise carries. \<^verbatim>\<open>TypeError\<close> is what the
  language raises when a property of \<^verbatim>\<open>null\<close>/\<^verbatim>\<open>undefined\<close> is read, when a
  non-function is called and when \<^verbatim>\<open>new URL\<close> cannot parse its argument;
  \<^verbatim>\<open>SyntaxError\<close> is the \<^verbatim>\<open>WebSocket\<close> constructor's refusal of a URL;
  \<^verbatim>\<open>NetworkError\<close> is a failed \<^verbatim>\<open>fetch\<close>; \<^verbatim>\<open>Thrown v\<close> is anything a
  caller's code throws.
\<close>

datatype js_error = TypeError | SyntaxError | NetworkError | Thrown jsval

text \<open>
  \<^verbatim>\<open>o.p\<close> on a value that is neither \<^verbatim>\<open>null\<close> nor \<^verbatim>\<open>undefined\<close>: the own
  property, else \<^verbatim>\<open>undefined\<close>. None of the property names read in
  \<^verbatim>\<open>script.js\<close> (\<^verbatim>\<open>type\<close>, \<^verbatim>\<open>data\<close>, \<^verbatim>\<open>tracker\<close>, \<^verbatim>\<open>screenshot\<close>,
  \<^verbatim>\<open>error\<close>, \<^verbatim>\<open>close\<close>) is on a built-in prototype of a plain object or a
  primitive, so the prototype chain adds nothing there.
\<close>

fun lookup :: "(string \<times> jsval) list \<Rightarrow> string \<Rightarrow> jsval" where
  "lookup [] k = JUndefined"
| "lookup ((k', v) # ps) k = (if k' = k then v else lookup ps k)"

fun get_prop :: "jsval \<Rightarrow> string \<Rightarrow> jsval" where
  "get_prop (JObj ps) k = lookup ps k"
| "get_prop v k = JUndefined"

text \<open>\<^verbatim>\<open>o.p\<close> in general: reading a property of \<^verbatim>\<open>null\<close> or \<^verbatim>\<open>undefined\<close> throws.\<close>

fun member :: "jsval \<Rightarrow> string \<Rightarrow> js_error + jsval" where
  "member JUndefined k = Inl TypeError"
| "member JNull k = Inl TypeError"
| "member v k = Inr (get_prop v k)"

text \<open>\<^verbatim>\<open>o.p = v\<close> on an object: an existing own property keeps its place.\<close>

fun set_prop :: "(string \<times> jsval) list \<Rightarrow> string \<Rightarrow> jsval \<Rightarrow> (string \<times> jsval) list" where
  "set_prop [] k v = [(k, v)]"
| "set_prop ((k', v') # ps) k v = (if k' = k then (k, v) # ps else (k', v') # set_prop ps k v)"

text \<open>The names of an object's own properties, in order.\<close>

fun own_keys :: "jsval \<Rightarrow> string list" where
  "own_keys (JObj ps) = map fst ps"
| "own_keys v = []"

text \<open>Truthiness, as \<^verbatim>\<open>if\<close> and \<^verbatim>\<open>&&\<close> test it.\<close>

fun truthy :: "jsval \<Rightarrow> bool" where
  "truthy JUndefined = False"
| "truthy JNull = False"
| "truthy (JBool b) = b"
| "truthy (JNum n) = (n \<noteq> 0)"
| "truthy (JStr s) = (s \<noteq> [])"
| "truthy v = True"

section \<open>The tagged payload: \<^verbatim>\<open>TypedData\<close> and the destructuring that reads it\<close>

text \<open>\<^verbatim>\<open>static TypedData(data, type) { return { type, data } }\<close>\<close>

definition TypedData :: "jsval \<Rightarrow> jsval \<Rightarrow> jsval" where
  "TypedData data type = JObj [(''type'', type), (''data'', data)]"

text \<open>
  \<^verbatim>\<open>let { type, data: payload } = msg\<close> (line 235): a direct read of the two fields,
  which throws only when \<^verbatim>\<open>msg\<close> is \<^verbatim>\<open>null\<close> or \<^verbatim>\<open>undefined\<close>.
\<close>

fun unwrap :: "jsval \<Rightarrow> js_error + (jsval \<times> jsval)" where
  "unwrap JUndefined = Inl TypeError"
| "unwrap JNull = Inl TypeError"
| "unwrap msg = Inr (get_prop msg ''type'', get_prop msg ''data'')"

section \<open>The message dispatcher: \<^verbatim>\<open>handleSwssMSG\<close>\<close>

text \<open>
  The caller's callbacks are the host's: \<open>env n args\<close> is what function \<open>n\<close> does on
  \<open>args\<close>, a returned value or a throw. Every call made is logged with its arguments.
\<close>

type_synonym callbacks = "nat \<Rightarrow> jsval list \<Rightarrow> js_error + jsval"

type_synonym call_log = "(nat \<times> jsval list) list"

text \<open>\<^verbatim>\<open>f(args)\<close>: calling anything but a function throws a \<^verbatim>\<open>TypeError\<close>.\<close>

fun call_value :: "callbacks \<Rightarrow> jsval \<Rightarrow> jsval list \<Rightarrow> call_log \<times> (js_error + jsval)" where
  "call_value env (JFun n) args = ([(n, args)], env n args)"
| "call_value env v args = ([], Inl TypeError)"

text \<open>
  \<^verbatim>\<open>let { tracker, screenshot, error, close } = opts\<close> (line 234): the four reads,
  throwing when \<^verbatim>\<open>opts\<close> is \<^verbatim>\<open>null\<close> or \<^verbatim>\<open>undefined\<close>.
\<close>

fun destructure_opts :: "jsval \<Rightarrow> js_error + (jsval \<times> jsval \<times> jsval \<times> jsval)" where
  "destructure_opts JUndefined = Inl TypeError"
| "destructure_opts JNull = Inl TypeError"
| "destructure_opts opts =
     Inr (get_prop opts ''tracker'', get_prop opts ''screenshot'',
          get_prop opts ''error'', get_prop opts ''close'')"

text \<open>
  \<^verbatim>\<open>function handle(cb) { return cb(payload, response) }\<close> and the \<^verbatim>\<open>switch\<close> on
  the tag (lines 237 to 243), which compares with \<^verbatim>\<open>===\<close> and has no default:
  falling out of it returns \<^verbatim>\<open>undefined\<close>.
\<close>

definition handle :: "callbacks \<Rightarrow> jsval \<Rightarrow> jsval \<Rightarrow> jsval \<Rightarrow> call_log \<times> (js_error + jsval)" where
  "handle env payload response cb = call_value env cb [payload, response]"

definition handleSwssMSG :: "callbacks \<Rightarrow> jsval \<Rightarrow> jsval \<Rightarrow> call_log \<times> (js_error + jsval)" where
  "handleSwssMSG env response opts =
     (case destructure_opts opts of
        Inl e \<Rightarrow> ([], Inl e)
      | Inr (tracker, screenshot, error, close) \<Rightarrow>
          (case member response ''data'' of
             Inl e \<Rightarrow> ([], Inl e)
           | Inr d \<Rightarrow>
               (case unwrap d of
                  Inl e \<Rightarrow> ([], Inl e)
                | Inr (type, payload) \<Rightarrow>
                    if type = JStr ''tracker'' then handle env payload response tracker
                    else if type = JStr ''screenshot'' then handle env payload response screenshot
                    else if type = JStr ''error'' then handle env payload response error
                    else if type = JStr ''close'' then handle env payload response close
                    else ([], Inr JUndefined))))"

text \<open>A host in which every callback returns \<^verbatim>\<open>undefined\<close>.\<close>

definition quiet_callbacks :: callbacks where
  "quiet_callbacks n args = Inr JUndefined"

text \<open>
  The message of the spec's example, \<^verbatim>\<open>{data: {type: "screenshot", data: "img"}}\<close>, and
  a handler set that registers only \<^verbatim>\<open>tracker\<close>.
\<close>

definition screenshot_msg :: jsval where
  "screenshot_msg = JObj [(''data'', JObj [(''type'', JStr ''screenshot''), (''data'', JStr ''img'')])]"

definition tracker_only :: jsval where
  "tracker_only = JObj [(''tracker'', JFun 0)]"

definition all_handlers :: jsval where
  "all_handlers = JObj [(''tracker'', JFun 0), (''screenshot'', JFun 1), (''error'', JFun 2), (''close'', JFun 3)]"

definition foo_msg :: jsval where
  "foo_msg = JObj [(''data'', JObj [(''type'', JStr ''foo''), (''data'', JStr ''x'')])]"

definition known_tags :: "string list" where
  "known_tags = [''tracker'', ''screenshot'', ''error'', ''close'']"


section \<open>The host: what the platform supplies\<close>

text \<open>
  A \<^verbatim>\<open>URL\<close> object as the summarizer uses it: the serialization without its query
  and the list of query parameters behind \<^verbatim>\<open>searchParams\<close>.
\<close>

record url =
  origin_path :: string
  searchParams :: "(string \<times> string) list"

record request =
  req_url :: url
  req_method :: string

text \<open>
  What \<^verbatim>\<open>await fetch(...)\<close> can give back, as far as line 8 looks at it: a value
  that is \<^verbatim>\<open>null\<close>/\<^verbatim>\<open>undefined\<close>, or an object whose \<^verbatim>\<open>text\<close> member is
  absent, is not callable, or is a method whose awaited result is a value or a rejection.
\<close>

datatype text_member = TextAbsent | TextNotCallable | TextMethod "js_error + jsval"

datatype response = RespNullish | Resp text_member

text \<open>
  The platform functions the code calls, taken as parameters: \<open>URL_parse s\<close> is the
  serialization of \<^verbatim>\<open>new URL(s)\<close> (\<open>None\<close> when the constructor throws),
  \<open>fetch\<close> the outcome of the awaited request (\<open>Inl\<close> a rejection),
  \<open>WebSocket_accepts\<close> whether \<^verbatim>\<open>new WebSocket\<close> takes its argument,
  \<open>JSON_stringify\<close> the serializer, \<open>has_Image\<close> whether the global \<^verbatim>\<open>Image\<close>
  exists, \<open>run\<close> the behaviour of foreign functions.
\<close>

record host =
  URL_parse :: "string \<Rightarrow> string option"
  fetch :: "request \<Rightarrow> js_error + response"
  WebSocket_accepts :: "jsval \<Rightarrow> bool"
  JSON_stringify :: "jsval \<Rightarrow> jsval"
  has_Image :: bool
  run :: callbacks

section \<open>The summarizer client: \<^verbatim>\<open>ai_summary\<close>\<close>

text \<open>\<^verbatim>\<open>static AI_ROUTE = new URL(`https://summarizer.dev.swisscows.com/summarize`)\<close>\<close>

definition AI_ROUTE :: url where
  "AI_ROUTE = \<lparr>origin_path = ''https://summarizer.dev.swisscows.com/summarize'', searchParams = []\<rparr>"

text \<open>
  \<^verbatim>\<open>searchParams.set(name, value)\<close>: the first pair of that name takes the value and
  the later ones go; with no such pair, one is appended.
\<close>

fun sp_set :: "string \<Rightarrow> string \<Rightarrow> (string \<times> string) list \<Rightarrow> (string \<times> string) list" where
  "sp_set k v [] = [(k, v)]"
| "sp_set k v ((k', v') # ps) =
     (if k' = k then (k, v) # filter (\<lambda>p. fst p \<noteq> k) ps else (k', v') # sp_set k v ps)"

text \<open>\<^verbatim>\<open>resp?.text?.()\<close>, awaited.\<close>

fun optional_text :: "response \<Rightarrow> js_error + jsval" where
  "optional_text RespNullish = Inr JUndefined"
| "optional_text (Resp TextAbsent) = Inr JUndefined"
| "optional_text (Resp TextNotCallable) = Inl TypeError"
| "optional_text (Resp (TextMethod r)) = r"

text \<open>
  Lines 5 to 8, once \<^verbatim>\<open>new URL(website)\<close> has given \<open>href\<close>: the copy of the
  route, its two parameters set, and the request \<^verbatim>\<open>fetch(url, { method: 'POST' })\<close>
  makes from it.
\<close>

definition summary_request :: "string \<Rightarrow> string \<Rightarrow> request" where
  "summary_request href lang =
     (let url0 = AI_ROUTE;
          url1 = url0\<lparr>searchParams := sp_set ''url'' href (searchParams url0)\<rparr>;
          url2 = url1\<lparr>searchParams := sp_set ''language'' lang (searchParams url1)\<rparr>
      in \<lparr>req_url = url2, req_method = ''POST''\<rparr>)"

text \<open>
  \<^verbatim>\<open>ai_summary(website, language = 'en')\<close>. The result pairs the requests issued with
  the outcome of the body: \<open>Inl e\<close> is the error the \<^verbatim>\<open>async\<close> function ends with
  (its promise rejects with \<open>e\<close>), \<open>Inr v\<close> the value it resolves to. An omitted
  \<^verbatim>\<open>language\<close> is \<open>None\<close>.
\<close>

definition ai_summary :: "host \<Rightarrow> string \<Rightarrow> string option \<Rightarrow> request list \<times> (js_error + jsval)" where
  "ai_summary h website language =
     (let lang = (case language of None \<Rightarrow> ''en'' | Some l \<Rightarrow> l)
      in case URL_parse h website of
           None \<Rightarrow> ([], Inl TypeError)
         | Some href \<Rightarrow>
             (let req = summary_request href lang
              in case fetch h req of
                   Inl e \<Rightarrow> ([req], Inl e)
                 | Inr resp \<Rightarrow> ([req], optional_text resp)))"

text \<open>
  Line 4 declares \<^verbatim>\<open>ai_summary\<close> with \<^verbatim>\<open>async\<close>. What the caller of an
  \<^verbatim>\<open>async\<close> function gets is a promise, in every case: the call itself never
  throws. The promise rejects with what the body threw (also before its first
  \<^verbatim>\<open>await\<close>) and fulfils with what the body returned. In \<open>js_error + settled\<close>,
  \<open>Inl\<close> is a throw out of the call and \<open>Inr\<close> the promise returned.
\<close>

datatype settled = RejectedWith js_error | FulfilledWith jsval

definition async_call :: "js_error + jsval \<Rightarrow> js_error + settled" where
  "async_call body = Inr (case body of Inl e \<Rightarrow> RejectedWith e | Inr v \<Rightarrow> FulfilledWith v)"

text \<open>
  \<^verbatim>\<open>ai_summary(website, language)\<close> as its caller sees it: the requests issued, and
  the promise the call returns.
\<close>

definition ai_summary_call :: "host \<Rightarrow> string \<Rightarrow> string option \<Rightarrow> request list \<times> (js_error + settled)" where
  "ai_summary_call h website language =
     (case ai_summary h website language of (reqs, body) \<Rightarrow> (reqs, async_call body))"

section \<open>The connection manager: \<^verbatim>\<open>SwisscowsPuppet\<close>\<close>

text \<open>
  The store: every socket the \<^verbatim>\<open>WebSocket\<close> constructor made, with the argument it
  was made from, its \<^verbatim>\<open>readyState\<close>, the frames handed to its \<^verbatim>\<open>send\<close> and the
  number of \<^verbatim>\<open>close\<close> requests; every argument the constructor was called with; the
  lines written by \<^verbatim>\<open>console.error\<close>; the foreign functions called.
\<close>

record websocket =
  ctor_arg :: jsval
  readyState :: nat
  sent :: "jsval list"
  close_requests :: nat

record world =
  sockets :: "websocket list"
  ctor_log :: "jsval list"
  console_errors :: "string list"
  calls :: call_log

definition empty_world :: world where
  "empty_world = \<lparr>sockets = [], ctor_log = [], console_errors = [], calls = []\<rparr>"

definition WebSocket_CONNECTING :: nat where "WebSocket_CONNECTING = 0"

definition WebSocket_OPEN :: nat where "WebSocket_OPEN = 1"

definition WebSocket_CLOSING :: nat where "WebSocket_CLOSING = 2"

definition WebSocket_CLOSED :: nat where "WebSocket_CLOSED = 3"

text \<open>\<^verbatim>\<open>static ws = new URL("wss://browse.dev.swisscows.com/ws/")\<close>: a property of the class.\<close>

definition SwisscowsPuppet_static :: "(string \<times> jsval) list" where
  "SwisscowsPuppet_static = [(''ws'', JUrl ''wss://browse.dev.swisscows.com/ws/'')]"

text \<open>The prototype holds the three methods (the identifiers only name them).\<close>

definition SwisscowsPuppet_prototype :: "(string \<times> jsval) list" where
  "SwisscowsPuppet_prototype = [(''connect'', JFun 1), (''send'', JFun 2), (''close'', JFun 3)]"

text \<open>\<^verbatim>\<open>new SwisscowsPuppet()\<close>: the instance field \<^verbatim>\<open>ws_instance = null\<close>.\<close>

definition SwisscowsPuppet_new :: "(string \<times> jsval) list" where
  "SwisscowsPuppet_new = [(''ws_instance'', JNull)]"

text \<open>
  \<^verbatim>\<open>this.p\<close> inside a method: the instance's own property, else the prototype's, else
  \<^verbatim>\<open>undefined\<close>. Static members are properties of the class and not on this chain.
\<close>

definition this_get :: "(string \<times> jsval) list \<Rightarrow> string \<Rightarrow> jsval" where
  "this_get this k =
     (case map_of this k of Some v \<Rightarrow> v | None \<Rightarrow> lookup SwisscowsPuppet_prototype k)"

text \<open>\<^verbatim>\<open>new WebSocket(url)\<close>: a new socket in state \<^verbatim>\<open>CONNECTING\<close>, or a throw.\<close>

definition WebSocket_new :: "host \<Rightarrow> jsval \<Rightarrow> world \<Rightarrow> (js_error + jsval) \<times> world" where
  "WebSocket_new h u w =
     (let w' = w\<lparr>ctor_log := ctor_log w @ [u]\<rparr>
      in if WebSocket_accepts h u
         then (Inr (JRef (length (sockets w))),
               w'\<lparr>sockets := sockets w @
                    [\<lparr>ctor_arg = u, readyState = WebSocket_CONNECTING, sent = [], close_requests = 0\<rparr>]\<rparr>)
         else (Inl SyntaxError, w'))"

text \<open>\<^verbatim>\<open>connect() { return this.ws_instance = new WebSocket(this.ws) }\<close>\<close>

definition connect :: "host \<Rightarrow> (string \<times> jsval) list \<Rightarrow> world \<Rightarrow>
    (js_error + jsval) \<times> (string \<times> jsval) list \<times> world" where
  "connect h this w =
     (case WebSocket_new h (this_get this ''ws'') w of
        (Inl e, w') \<Rightarrow> (Inl e, this, w')
      | (Inr s, w') \<Rightarrow> (Inr s, set_prop this ''ws_instance'' s, w'))"

text \<open>\<^verbatim>\<open>v.readyState\<close> of a value that is not \<^verbatim>\<open>null\<close>/\<^verbatim>\<open>undefined\<close>.\<close>

definition get_readyState :: "world \<Rightarrow> jsval \<Rightarrow> jsval" where
  "get_readyState w v =
     (case v of
        JRef r \<Rightarrow> (if r < length (sockets w) then JNum (int (readyState (sockets w ! r))) else JUndefined)
      | _ \<Rightarrow> get_prop v ''readyState'')"

text \<open>
  A method call \<^verbatim>\<open>v.m(args)\<close> on a value that is not a socket of the store: the
  property is read and called.
\<close>

definition foreign_method :: "host \<Rightarrow> jsval \<Rightarrow> string \<Rightarrow> jsval list \<Rightarrow> world \<Rightarrow> (js_error + jsval) \<times> world" where
  "foreign_method h v m args w =
     (case member v m of
        Inl e \<Rightarrow> (Inl e, w)
      | Inr f \<Rightarrow> (case call_value (run h) f args of (l, r) \<Rightarrow> (r, w\<lparr>calls := calls w @ l\<rparr>)))"

text \<open>
  \<^verbatim>\<open>v.send(frame)\<close>. On a socket: an \<^verbatim>\<open>InvalidStateError\<close> (here \<open>Thrown\<close>) while
  \<^verbatim>\<open>CONNECTING\<close>, else the frame is taken. References are made by
  \<open>WebSocket_new\<close> only and always point into the store; for a reference outside it
  the model fails rather than read out of range.
\<close>

definition method_send :: "host \<Rightarrow> jsval \<Rightarrow> jsval \<Rightarrow> world \<Rightarrow> (js_error + jsval) \<times> world" where
  "method_send h v frame w =
     (case v of
        JRef r \<Rightarrow>
          (if r < length (sockets w)
           then (if readyState (sockets w ! r) = WebSocket_CONNECTING
                 then (Inl (Thrown (JStr ''InvalidStateError'')), w)
                 else (Inr JUndefined,
                       w\<lparr>sockets := (sockets w)[r := (sockets w ! r)\<lparr>sent := sent (sockets w ! r) @ [frame]\<rparr>]\<rparr>))
           else (Inl TypeError, w))
      | _ \<Rightarrow> foreign_method h v ''send'' [frame] w)"

text \<open>
  \<^verbatim>\<open>v.close()\<close>. On a socket the request is counted and a socket not yet closing
  starts to close.
\<close>

definition method_close :: "host \<Rightarrow> jsval \<Rightarrow> world \<Rightarrow> (js_error + jsval) \<times> world" where
  "method_close h v w =
     (case v of
        JRef r \<Rightarrow>
          (if r < length (sockets w)
           then (Inr JUndefined,
                 w\<lparr>sockets := (sockets w)[r := (sockets w ! r)
                      \<lparr>close_requests := Suc (close_requests (sockets w ! r)),
                       readyState := (if readyState (sockets w ! r) < WebSocket_CLOSING
                                      then WebSocket_CLOSING else readyState (sockets w ! r))\<rparr>]\<rparr>)
           else (Inl TypeError, w))
      | _ \<Rightarrow> foreign_method h v ''close'' [] w)"

definition console_error :: "string \<Rightarrow> world \<Rightarrow> world" where
  "console_error line w = w\<lparr>console_errors := console_errors w @ [line]\<rparr>"

text \<open>
  \<^verbatim>\<open>send(payload)\<close>, lines 96 to 100: the frame goes out when the handle is truthy and
  its \<^verbatim>\<open>readyState\<close> is \<^verbatim>\<open>WebSocket.OPEN\<close>; otherwise one line goes to
  \<^verbatim>\<open>console.error\<close>.
\<close>

definition send :: "host \<Rightarrow> (string \<times> jsval) list \<Rightarrow> jsval \<Rightarrow> world \<Rightarrow> (js_error + jsval) \<times> world" where
  "send h this payload w =
     (let s = this_get this ''ws_instance''
      in if truthy s \<and> get_readyState w s = JNum (int WebSocket_OPEN)
         then (case method_send h s (JSON_stringify h payload) w of
                 (Inl e, w') \<Rightarrow> (Inl e, w')
               | (Inr r, w') \<Rightarrow> (Inr JUndefined, w'))
         else (Inr JUndefined, console_error ''WebSocket is not open. Unable to send payload.'' w))"

text \<open>\<^verbatim>\<open>close() { this.ws_instance.close() }\<close>\<close>

definition close :: "host \<Rightarrow> (string \<times> jsval) list \<Rightarrow> world \<Rightarrow> (js_error + jsval) \<times> world" where
  "close h this w =
     (case method_close h (this_get this ''ws_instance'') w of
        (Inl e, w') \<Rightarrow> (Inl e, w')
      | (Inr r, w') \<Rightarrow> (Inr JUndefined, w'))"

section \<open>The domain values: \<^verbatim>\<open>Tracker\<close> and \<^verbatim>\<open>Screenshot\<close>\<close>

text \<open>
  \<^verbatim>\<open>new Tracker(name, baseUrl, category)\<close>: the three declared fields exist as
  \<^verbatim>\<open>undefined\<close> before the constructor body assigns them.
\<close>

definition Tracker_new :: "jsval \<Rightarrow> jsval \<Rightarrow> jsval \<Rightarrow> jsval" where
  "Tracker_new name baseUrl category =
     (let this0 = [(''name'', JUndefined), (''baseUrl'', JUndefined), (''category'', JUndefined)];
          this1 = set_prop this0 ''name'' name;
          this2 = set_prop this1 ''baseUrl'' baseUrl;
          this3 = set_prop this2 ''category'' category
      in JObj this3)"

text \<open>\<^verbatim>\<open>return SC_API.TypedData(new SC_API.Tracker(name, baseUrl, category), "tracker")\<close>\<close>

definition TrackerPayload :: "jsval \<Rightarrow> jsval \<Rightarrow> jsval \<Rightarrow> jsval" where
  "TrackerPayload name baseUrl category = TypedData (Tracker_new name baseUrl category) (JStr ''tracker'')"

text \<open>
  A \<^verbatim>\<open>Screenshot\<close> together with the probe its constructor starts. \<open>props\<close> are the
  instance's own properties (\<^verbatim>\<open>LOADED\<close>, \<^verbatim>\<open>data\<close>); \<open>probe\<close> is the promise
  \<^verbatim>\<open>testURI\<close> returned; \<open>img_src\<close> is the \<^verbatim>\<open>src\<close> given to the image, when one
  could be made; \<open>img_removed\<close> counts \<^verbatim>\<open>img.remove()\<close>; \<open>reactions\<close> are the queued
  calls of \<^verbatim>\<open>res => this.LOADED = res\<close>, each with its argument; \<open>LOADED_writes\<close>
  logs every assignment to \<^verbatim>\<open>LOADED\<close> made after construction.
\<close>

datatype promise = Pending | Fulfilled bool | Rejected

record screenshot =
  props :: "(string \<times> jsval) list"
  probe :: promise
  img_src :: "jsval option"
  img_removed :: nat
  reactions :: "bool list"
  LOADED_writes :: "bool list"

text \<open>
  \<^verbatim>\<open>new Screenshot(data)\<close>: the fields \<^verbatim>\<open>LOADED = false\<close> and \<^verbatim>\<open>data\<close>, the
  assignment \<^verbatim>\<open>this.data = data\<close>, then \<^verbatim>\<open>testURI(data).then(...)\<close>. The promise's
  executor makes the image and installs \<^verbatim>\<open>makeImgOpts\<close> on it; where the global
  \<^verbatim>\<open>Image\<close> is missing, the executor's throw rejects the promise.
\<close>

definition Screenshot_new :: "host \<Rightarrow> jsval \<Rightarrow> screenshot" where
  "Screenshot_new h data =
     (let this0 = [(''LOADED'', JBool False), (''data'', JUndefined)];
          this1 = set_prop this0 ''data'' data
      in \<lparr>props = this1,
          probe = (if has_Image h then Pending else Rejected),
          img_src = (if has_Image h then Some data else None),
          img_removed = 0,
          reactions = [],
          LOADED_writes = []\<rparr>)"

text \<open>\<^verbatim>\<open>return SC_API.TypedData(new SC_API.Screenshot(data).data, "screenshot")\<close>\<close>

definition ScreenshotPayload :: "host \<Rightarrow> jsval \<Rightarrow> jsval \<times> screenshot" where
  "ScreenshotPayload h data =
     (let s = Screenshot_new h data
      in (TypedData (get_prop (JObj (props s)) ''data'') (JStr ''screenshot''), s))"

text \<open>
  What can happen to a \<^verbatim>\<open>Screenshot\<close> after construction: the image fires
  \<^verbatim>\<open>onload\<close>, \<^verbatim>\<open>onerror\<close> or \<^verbatim>\<open>onabort\<close>, or the job queue runs the next
  reaction.
\<close>

datatype event = OnLoad | OnError | OnAbort | RunJob

text \<open>
  \<^verbatim>\<open>resolve(b)\<close> of the probe's promise: only a pending promise settles, and settling
  queues the one reaction registered by \<^verbatim>\<open>.then\<close>.
\<close>

definition resolve :: "bool \<Rightarrow> screenshot \<Rightarrow> screenshot" where
  "resolve b s =
     (case probe s of
        Pending \<Rightarrow> s\<lparr>probe := Fulfilled b, reactions := reactions s @ [b]\<rparr>
      | _ \<Rightarrow> s)"

text \<open>\<^verbatim>\<open>function pass() { img.remove(), resolve(true) }\<close> and \<^verbatim>\<open>fail\<close> likewise.\<close>

definition pass :: "screenshot \<Rightarrow> screenshot" where
  "pass s = resolve True (s\<lparr>img_removed := Suc (img_removed s)\<rparr>)"

definition fail :: "screenshot \<Rightarrow> screenshot" where
  "fail s = resolve False (s\<lparr>img_removed := Suc (img_removed s)\<rparr>)"

text \<open>
  One event. An image that was never made fires nothing. A job runs
  \<^verbatim>\<open>this.LOADED = res\<close>.
\<close>

fun step :: "event \<Rightarrow> screenshot \<Rightarrow> screenshot" where
  "step RunJob s =
     (case reactions s of
        [] \<Rightarrow> s
      | b # rest \<Rightarrow> s\<lparr>props := set_prop (props s) ''LOADED'' (JBool b),
                      reactions := rest,
                      LOADED_writes := LOADED_writes s @ [b]\<rparr>)"
| "step OnLoad s = (if img_src s = None then s else pass s)"
| "step OnError s = (if img_src s = None then s else fail s)"
| "step OnAbort s = (if img_src s = None then s else fail s)"

fun run_events :: "event list \<Rightarrow> screenshot \<Rightarrow> screenshot" where
  "run_events [] s = s"
| "run_events (e # es) s = run_events es (step e s)"

text \<open>The result of the probe in a run: what the first event of the image says.\<close>

fun probe_result :: "event list \<Rightarrow> bool option" where
  "probe_result [] = None"
| "probe_result (OnLoad # es) = Some True"
| "probe_result (OnError # es) = Some False"
| "probe_result (OnAbort # es) = Some False"
| "probe_result (RunJob # es) = probe_result es"

section \<open>Concrete hosts and inputs\<close>

text \<open>
  A browser-like host: it parses the two URLs below, answers every request with the body
  \<^verbatim>\<open>A short summary.\<close>, accepts WebSocket URLs given as strings or \<^verbatim>\<open>URL\<close>
  objects, and has \<^verbatim>\<open>Image\<close>.
\<close>

definition browser_parse :: "string \<Rightarrow> string option" where
  "browser_parse s =
     (if s = ''https://example.com'' then Some ''https://example.com/''
      else if s = ''https://example.com/'' then Some ''https://example.com/''
      else None)"

definition browser_fetch :: "request \<Rightarrow> js_error + response" where
  "browser_fetch r = Inr (Resp (TextMethod (Inr (JStr ''A short summary.''))))"

fun browser_accepts :: "jsval \<Rightarrow> bool" where
  "browser_accepts (JUrl u) = True"
| "browser_accepts (JStr u) = True"
| "browser_accepts v = False"

definition browser_stringify :: "jsval \<Rightarrow> jsval" where
  "browser_stringify v = JStr ''{}''"

definition browser :: host where
  "browser = \<lparr>URL_parse = browser_parse, fetch = browser_fetch,
              WebSocket_accepts = browser_accepts, JSON_stringify = browser_stringify,
              has_Image = True, run = quiet_callbacks\<rparr>"

text \<open>The same host with the network down, and with a response that has no body reader.\<close>

definition offline_fetch :: "request \<Rightarrow> js_error + response" where
  "offline_fetch r = Inl NetworkError"

definition offline :: host where
  "offline = browser\<lparr>fetch := offline_fetch\<rparr>"

definition bodyless_fetch :: "request \<Rightarrow> js_error + response" where
  "bodyless_fetch r = Inr (Resp TextAbsent)"

definition bodyless :: host where
  "bodyless = browser\<lparr>fetch := bodyless_fetch\<rparr>"

text \<open>A store with one socket that is still connecting, and an instance that holds it.\<close>

definition connecting_world :: world where
  "connecting_world =
     empty_world\<lparr>sockets := [\<lparr>ctor_arg = JStr ''wss://browse.dev.swisscows.com/ws/'',
                               readyState = 0, sent = [], close_requests = 0\<rparr>]\<rparr>"

definition connected_puppet :: "(string \<times> jsval) list" where
  "connected_puppet = [(''ws_instance'', JRef 0)]"

text \<open>A store whose one socket has been closed.\<close>

definition closed_world :: world where
  "closed_world =
     empty_world\<lparr>sockets := [\<lparr>ctor_arg = JStr ''wss://browse.dev.swisscows.com/ws/'',
                               readyState = WebSocket_CLOSED, sent = [JStr ''{}''], close_requests = 1\<rparr>]\<rparr>"

section \<open>The dispatcher drops unknown tags and requires a handler for known ones\<close>

text \<open>
  C7. For every inbound message whose tag is outside the known set
  \<^verbatim>\<open>{tracker, screenshot, error, close}\<close> and for every handler set,
  \<^verbatim>\<open>handleSwssMSG\<close> invokes no callback and raises no error: the call log is empty
  and the call returns \<^verbatim>\<open>undefined\<close>.
\<close>

theorem handleSwssMSG_unknown_tag_dropped:
  assumes "member response ''data'' = Inr d"
    and "unwrap d = Inr (type, payload)"
    and "type \<notin> JStr ` set known_tags"
  shows "handleSwssMSG env response (JObj hs) = ([], Inr JUndefined)"
proof -
  from assms(3) have "type \<noteq> JStr ''tracker''" "type \<noteq> JStr ''screenshot''"
    "type \<noteq> JStr ''error''" "type \<noteq> JStr ''close''"
    by (simp_all add: known_tags_def image_iff)
  with assms(1,2) show ?thesis
    by (simp add: handleSwssMSG_def)
qed

text \<open>The message \<^verbatim>\<open>{type: "foo", data: "x"}\<close> against all four handlers.\<close>

theorem handleSwssMSG_unknown_tag_dropped_witness:
  "member foo_msg ''data'' = Inr (JObj [(''type'', JStr ''foo''), (''data'', JStr ''x'')]) \<and>
   unwrap (JObj [(''type'', JStr ''foo''), (''data'', JStr ''x'')]) = Inr (JStr ''foo'', JStr ''x'') \<and>
   JStr ''foo'' \<notin> JStr ` set known_tags \<and>
   handleSwssMSG quiet_callbacks foo_msg all_handlers = ([], Inr JUndefined)"
proof -
  have m: "member foo_msg ''data'' = Inr (JObj [(''type'', JStr ''foo''), (''data'', JStr ''x'')])"
    by (simp add: foo_msg_def)
  have u: "unwrap (JObj [(''type'', JStr ''foo''), (''data'', JStr ''x'')]) = Inr (JStr ''foo'', JStr ''x'')"
    by simp
  have k: "JStr ''foo'' \<notin> JStr ` set known_tags"
    by (simp add: known_tags_def)
  from handleSwssMSG_unknown_tag_dropped [OF m u k, of quiet_callbacks] m u k show ?thesis
    by (simp add: all_handlers_def)
qed

text \<open>
  C1 as stated fails: a \<^verbatim>\<open>screenshot\<close> message against a handler set that holds
  only \<^verbatim>\<open>tracker\<close> ends in a \<^verbatim>\<open>TypeError\<close>, since \<^verbatim>\<open>handle\<close> calls the
  absent handler.
\<close>

theorem handleSwssMSG_absent_handler_counterexample:
  "handleSwssMSG quiet_callbacks screenshot_msg tracker_only = ([], Inl TypeError)"
  by (simp add: handleSwssMSG_def screenshot_msg_def tracker_only_def handle_def)

text \<open>
  C1, amended. For every inbound message whose tag is one of the four known tags and
  every handler set in which no handler is registered for that tag,
  \<^verbatim>\<open>handleSwssMSG\<close> invokes no callback and raises a \<^verbatim>\<open>TypeError\<close>.
\<close>

theorem handleSwssMSG_absent_handler_throws:
  assumes "tag \<in> set known_tags"
    and "member response ''data'' = Inr d"
    and "unwrap d = Inr (JStr tag, payload)"
    and "get_prop (JObj hs) tag = JUndefined"
  shows "handleSwssMSG env response (JObj hs) = ([], Inl TypeError)"
proof -
  from assms(1) consider "tag = ''tracker''" | "tag = ''screenshot''" | "tag = ''error''" | "tag = ''close''"
    by (auto simp: known_tags_def)
  then show ?thesis
  proof cases
    case 1
    with assms(2,3,4) show ?thesis by (simp add: handleSwssMSG_def handle_def)
  next
    case 2
    with assms(2,3,4) show ?thesis by (simp add: handleSwssMSG_def handle_def)
  next
    case 3
    with assms(2,3,4) show ?thesis by (simp add: handleSwssMSG_def handle_def)
  next
    case 4
    with assms(2,3,4) show ?thesis by (simp add: handleSwssMSG_def handle_def)
  qed
qed

theorem handleSwssMSG_absent_handler_throws_witness:
  "''close'' \<in> set known_tags \<and>
   member (JObj [(''data'', JObj [(''type'', JStr ''close''), (''data'', JNull)])]) ''data'' =
     Inr (JObj [(''type'', JStr ''close''), (''data'', JNull)]) \<and>
   unwrap (JObj [(''type'', JStr ''close''), (''data'', JNull)]) = Inr (JStr ''close'', JNull) \<and>
   get_prop (JObj [(''tracker'', JFun 0)]) ''close'' = JUndefined \<and>
   handleSwssMSG quiet_callbacks (JObj [(''data'', JObj [(''type'', JStr ''close''), (''data'', JNull)])])
     (JObj [(''tracker'', JFun 0)]) = ([], Inl TypeError)"
proof -
  have t: "''close'' \<in> set known_tags"
    by (simp add: known_tags_def)
  have m: "member (JObj [(''data'', JObj [(''type'', JStr ''close''), (''data'', JNull)])]) ''data'' =
     Inr (JObj [(''type'', JStr ''close''), (''data'', JNull)])"
    by simp
  have u: "unwrap (JObj [(''type'', JStr ''close''), (''data'', JNull)]) = Inr (JStr ''close'', JNull)"
    by simp
  have g: "get_prop (JObj [(''tracker'', JFun 0)]) ''close'' = JUndefined"
    by simp
  from handleSwssMSG_absent_handler_throws [OF t m u g, of quiet_callbacks] t m u g show ?thesis
    by simp
qed

section \<open>The payload builders\<close>

text \<open>
  C5. For every string \<open>s\<close>, \<^verbatim>\<open>ScreenshotPayload\<close> applied to \<open>s\<close> yields
  exactly \<^verbatim>\<open>{type: "screenshot", data: s}\<close>, on every host; the \<^verbatim>\<open>LOADED\<close> flag
  is not a property of the payload.
\<close>

theorem ScreenshotPayload_type_and_data_only:
  "fst (ScreenshotPayload h (JStr s)) = JObj [(''type'', JStr ''screenshot''), (''data'', JStr s)] \<and>
   own_keys (fst (ScreenshotPayload h (JStr s))) = [''type'', ''data''] \<and>
   ''LOADED'' \<notin> set (own_keys (fst (ScreenshotPayload h (JStr s))))"
  by (simp add: ScreenshotPayload_def Screenshot_new_def TypedData_def Let_def)

text \<open>
  C6. For all strings \<open>n\<close>, \<open>b\<close>, \<open>c\<close>, unwrapping
  \<^verbatim>\<open>TrackerPayload(n, b, c)\<close> yields the tag \<^verbatim>\<open>"tracker"\<close> and a data object
  whose properties are exactly \<^verbatim>\<open>name\<close>, \<^verbatim>\<open>baseUrl\<close> and \<^verbatim>\<open>category\<close>, equal to
  the inputs.
\<close>

theorem TrackerPayload_roundtrip:
  "unwrap (TrackerPayload (JStr n) (JStr b) (JStr c)) =
     Inr (JStr ''tracker'', JObj [(''name'', JStr n), (''baseUrl'', JStr b), (''category'', JStr c)])"
  by (simp add: TrackerPayload_def Tracker_new_def TypedData_def Let_def)

section \<open>The connection manager\<close>

text \<open>
  C2 fails on the code. \<^verbatim>\<open>connect\<close> reads \<^verbatim>\<open>this.ws\<close>, but \<^verbatim>\<open>ws\<close> is a static
  member of the class: on a new instance the read gives \<^verbatim>\<open>undefined\<close>, and that is
  the value the \<^verbatim>\<open>WebSocket\<close> constructor is called with, on every host and in every
  store, not the endpoint held by the class.
\<close>

theorem connect_passes_undefined:
  "ctor_log (snd (snd (connect h SwisscowsPuppet_new w))) = ctor_log w @ [JUndefined] \<and>
   lookup SwisscowsPuppet_static ''ws'' = JUrl ''wss://browse.dev.swisscows.com/ws/'' \<and>
   this_get SwisscowsPuppet_new ''ws'' \<noteq> lookup SwisscowsPuppet_static ''ws''"
  by (simp add: connect_def WebSocket_new_def this_get_def SwisscowsPuppet_new_def
      SwisscowsPuppet_prototype_def SwisscowsPuppet_static_def Let_def)

text \<open>
  C3. For every instance with no transport handle, or with a handle whose
  \<^verbatim>\<open>readyState\<close> is not \<^verbatim>\<open>OPEN\<close>, and every payload, \<^verbatim>\<open>send\<close> returns
  without throwing, leaves every socket as it was (nothing is transmitted), calls no
  foreign function and writes exactly one line to \<^verbatim>\<open>console.error\<close>.
\<close>

theorem send_not_open_one_diagnostic:
  assumes "this_get this ''ws_instance'' = JNull \<or>
     (\<exists>r. this_get this ''ws_instance'' = JRef r \<and> r < length (sockets w) \<and>
          readyState (sockets w ! r) \<noteq> WebSocket_OPEN)"
  shows "fst (send h this payload w) = Inr JUndefined \<and>
         sockets (snd (send h this payload w)) = sockets w \<and>
         calls (snd (send h this payload w)) = calls w \<and>
         ctor_log (snd (send h this payload w)) = ctor_log w \<and>
         console_errors (snd (send h this payload w)) =
           console_errors w @ [''WebSocket is not open. Unable to send payload.'']"
  using assms by (auto simp: send_def get_readyState_def console_error_def)

text \<open>A never-connected instance, and an instance whose socket has been closed.\<close>

theorem send_not_open_one_diagnostic_witness:
  "this_get SwisscowsPuppet_new ''ws_instance'' = JNull \<and>
   fst (send browser SwisscowsPuppet_new (JStr ''p'') empty_world) = Inr JUndefined \<and>
   sockets (snd (send browser SwisscowsPuppet_new (JStr ''p'') empty_world)) = [] \<and>
   console_errors (snd (send browser SwisscowsPuppet_new (JStr ''p'') empty_world)) =
     [''WebSocket is not open. Unable to send payload.''] \<and>
   this_get connected_puppet ''ws_instance'' = JRef 0 \<and>
   readyState (sockets closed_world ! 0) \<noteq> WebSocket_OPEN \<and>
   fst (send browser connected_puppet (JStr ''p'') closed_world) = Inr JUndefined \<and>
   sockets (snd (send browser connected_puppet (JStr ''p'') closed_world)) = sockets closed_world \<and>
   console_errors (snd (send browser connected_puppet (JStr ''p'') closed_world)) =
     [''WebSocket is not open. Unable to send payload.'']"
proof -
  have a: "this_get SwisscowsPuppet_new ''ws_instance'' = JNull"
    by (simp add: this_get_def SwisscowsPuppet_new_def)
  have b: "this_get connected_puppet ''ws_instance'' = JRef 0"
    by (simp add: this_get_def connected_puppet_def)
  have c: "0 < length (sockets closed_world)" "readyState (sockets closed_world ! 0) \<noteq> WebSocket_OPEN"
    by (simp_all add: closed_world_def empty_world_def WebSocket_OPEN_def WebSocket_CLOSED_def)
  from a have h1: "this_get SwisscowsPuppet_new ''ws_instance'' = JNull \<or>
     (\<exists>r. this_get SwisscowsPuppet_new ''ws_instance'' = JRef r \<and> r < length (sockets empty_world) \<and>
          readyState (sockets empty_world ! r) \<noteq> WebSocket_OPEN)"
    by simp
  from b c have h2: "this_get connected_puppet ''ws_instance'' = JNull \<or>
     (\<exists>r. this_get connected_puppet ''ws_instance'' = JRef r \<and> r < length (sockets closed_world) \<and>
          readyState (sockets closed_world ! r) \<noteq> WebSocket_OPEN)"
    by simp
  have e: "sockets empty_world = []" "console_errors empty_world = []" "console_errors closed_world = []"
    by (simp_all add: empty_world_def closed_world_def)
  from send_not_open_one_diagnostic [OF h1, of browser "JStr ''p''"]
       send_not_open_one_diagnostic [OF h2, of browser "JStr ''p''"] a b c e
  show ?thesis by simp
qed

text \<open>
  C8. On an instance whose \<^verbatim>\<open>ws_instance\<close> is still \<^verbatim>\<open>null\<close>, \<^verbatim>\<open>close\<close> fails
  with a \<^verbatim>\<open>TypeError\<close> and changes nothing; on an instance whose \<^verbatim>\<open>ws_instance\<close>
  is a socket of the store, \<^verbatim>\<open>close\<close> returns normally, adds one close request to
  that socket and leaves every other socket alone.
\<close>

theorem close_null_fails_handle_closes:
  "(this_get this ''ws_instance'' = JNull \<longrightarrow> close h this w = (Inl TypeError, w)) \<and>
   (this_get this ''ws_instance'' = JRef r \<and> r < length (sockets w) \<longrightarrow>
      fst (close h this w) = Inr JUndefined \<and>
      length (sockets (snd (close h this w))) = length (sockets w) \<and>
      close_requests (sockets (snd (close h this w)) ! r) = Suc (close_requests (sockets w ! r)) \<and>
      (\<forall>i < length (sockets w). i \<noteq> r \<longrightarrow> sockets (snd (close h this w)) ! i = sockets w ! i))"
  by (auto simp: close_def method_close_def foreign_method_def)

theorem close_null_fails_handle_closes_witness:
  "this_get SwisscowsPuppet_new ''ws_instance'' = JNull \<and>
   close browser SwisscowsPuppet_new empty_world = (Inl TypeError, empty_world) \<and>
   this_get connected_puppet ''ws_instance'' = JRef 0 \<and>
   0 < length (sockets connecting_world) \<and>
   fst (close browser connected_puppet connecting_world) = Inr JUndefined \<and>
   close_requests (sockets (snd (close browser connected_puppet connecting_world)) ! 0) = 1"
proof -
  have a: "this_get SwisscowsPuppet_new ''ws_instance'' = JNull"
    by (simp add: this_get_def SwisscowsPuppet_new_def)
  have b: "this_get connected_puppet ''ws_instance'' = JRef 0"
    by (simp add: this_get_def connected_puppet_def)
  have c: "0 < length (sockets connecting_world)" "close_requests (sockets connecting_world ! 0) = 0"
    by (simp_all add: connecting_world_def empty_world_def)
  from close_null_fails_handle_closes [of SwisscowsPuppet_new browser empty_world 0]
       close_null_fails_handle_closes [of connected_puppet browser connecting_world 0] a b c
  show ?thesis by simp
qed

section \<open>The summarizer client\<close>

text \<open>
  C4 as stated fails: with the network down, the rejection of \<^verbatim>\<open>fetch\<close> is the
  outcome of \<^verbatim>\<open>ai_summary\<close>; nothing catches it.
\<close>

theorem ai_summary_network_failure_counterexample:
  "snd (ai_summary offline ''https://example.com'' None) = Inl NetworkError"
  by (simp add: ai_summary_def offline_def browser_def browser_parse_def offline_fetch_def)

text \<open>
  C4, amended. For every website that parses as a URL and every language: if the awaited
  \<^verbatim>\<open>fetch\<close> gives an absent (\<^verbatim>\<open>null\<close>/\<^verbatim>\<open>undefined\<close>) response or a response
  without a \<^verbatim>\<open>text\<close> member, \<^verbatim>\<open>ai_summary\<close> yields \<^verbatim>\<open>undefined\<close> and no error;
  if the \<^verbatim>\<open>fetch\<close> fails with \<open>e\<close>, \<^verbatim>\<open>ai_summary\<close> fails with \<open>e\<close>.
\<close>

theorem ai_summary_absent_body_or_failed_fetch:
  assumes "URL_parse h website = Some href"
  shows "(fetch h (summary_request href (case language of None \<Rightarrow> ''en'' | Some l \<Rightarrow> l)) = Inr RespNullish \<or>
          fetch h (summary_request href (case language of None \<Rightarrow> ''en'' | Some l \<Rightarrow> l)) = Inr (Resp TextAbsent)
            \<longrightarrow> snd (ai_summary h website language) = Inr JUndefined) \<and>
         (fetch h (summary_request href (case language of None \<Rightarrow> ''en'' | Some l \<Rightarrow> l)) = Inl e
            \<longrightarrow> snd (ai_summary h website language) = Inl e)"
  using assms by (auto simp: ai_summary_def Let_def)

text \<open>A response without a body reader, and the network down.\<close>

theorem ai_summary_absent_body_or_failed_fetch_witness:
  "URL_parse bodyless ''https://example.com'' = Some ''https://example.com/'' \<and>
   fetch bodyless (summary_request ''https://example.com/'' ''en'') = Inr (Resp TextAbsent) \<and>
   snd (ai_summary bodyless ''https://example.com'' None) = Inr JUndefined \<and>
   URL_parse offline ''https://example.com'' = Some ''https://example.com/'' \<and>
   fetch offline (summary_request ''https://example.com/'' ''de'') = Inl NetworkError \<and>
   snd (ai_summary offline ''https://example.com'' (Some ''de'')) = Inl NetworkError"
proof -
  have p1: "URL_parse bodyless ''https://example.com'' = Some ''https://example.com/''"
    by (simp add: bodyless_def browser_def browser_parse_def)
  have p2: "URL_parse offline ''https://example.com'' = Some ''https://example.com/''"
    by (simp add: offline_def browser_def browser_parse_def)
  have f1: "fetch bodyless (summary_request ''https://example.com/'' ''en'') = Inr (Resp TextAbsent)"
    by (simp add: bodyless_def browser_def bodyless_fetch_def)
  have f2: "fetch offline (summary_request ''https://example.com/'' ''de'') = Inl NetworkError"
    by (simp add: offline_def browser_def offline_fetch_def)
  from ai_summary_absent_body_or_failed_fetch [OF p1, of None NetworkError]
       ai_summary_absent_body_or_failed_fetch [OF p2, of "Some ''de''" NetworkError] p1 p2 f1 f2
  show ?thesis by simp
qed

text \<open>
  C10 as stated fails: \<^verbatim>\<open>ai_summary\<close> is an \<^verbatim>\<open>async\<close> function, so for a
  website that is no URL the call does not throw; it returns a promise, rejected with the
  \<^verbatim>\<open>TypeError\<close> of the \<^verbatim>\<open>URL\<close> constructor.
\<close>

theorem ai_summary_call_no_synchronous_throw_counterexample:
  "snd (ai_summary_call browser ''example'' None) = Inr (RejectedWith TypeError)"
  by (simp add: ai_summary_call_def async_call_def ai_summary_def browser_def browser_parse_def)

text \<open>
  C10, amended. \<^verbatim>\<open>ai_summary\<close> parses its \<^verbatim>\<open>website\<close> argument with the
  \<^verbatim>\<open>URL\<close> constructor before it issues the request. For a website the constructor
  rejects, the call returns a promise rejected with the constructor's \<^verbatim>\<open>TypeError\<close>
  and no request is made. For a website it accepts, the call returns a promise, exactly
  one request is made, a \<^verbatim>\<open>POST\<close> to the route, and its \<^verbatim>\<open>url\<close> parameter is the
  serialization of the parsed URL, not the caller's string.
\<close>

theorem ai_summary_call_rejects_before_request:
  "(URL_parse h website = None \<longrightarrow>
      ai_summary_call h website language = ([], Inr (RejectedWith TypeError))) \<and>
   (URL_parse h website = Some href \<longrightarrow>
      fst (ai_summary_call h website language) =
        [summary_request href (case language of None \<Rightarrow> ''en'' | Some l \<Rightarrow> l)] \<and>
      snd (ai_summary_call h website language) =
        async_call (snd (ai_summary h website language)) \<and>
      req_method (summary_request href (case language of None \<Rightarrow> ''en'' | Some l \<Rightarrow> l)) = ''POST'' \<and>
      origin_path (req_url (summary_request href (case language of None \<Rightarrow> ''en'' | Some l \<Rightarrow> l))) =
        ''https://summarizer.dev.swisscows.com/summarize'' \<and>
      searchParams (req_url (summary_request href (case language of None \<Rightarrow> ''en'' | Some l \<Rightarrow> l))) =
        [(''url'', href), (''language'', case language of None \<Rightarrow> ''en'' | Some l \<Rightarrow> l)])"
proof (intro conjI impI)
  assume "URL_parse h website = None"
  then show "ai_summary_call h website language = ([], Inr (RejectedWith TypeError))"
    by (simp add: ai_summary_call_def async_call_def ai_summary_def)
next
  assume "URL_parse h website = Some href"
  then show "fst (ai_summary_call h website language) =
      [summary_request href (case language of None \<Rightarrow> ''en'' | Some l \<Rightarrow> l)]"
    by (simp add: ai_summary_call_def ai_summary_def Let_def split: sum.splits prod.splits)
next
  show "snd (ai_summary_call h website language) = async_call (snd (ai_summary h website language))"
    by (simp add: ai_summary_call_def split: prod.splits)
next
  show "req_method (summary_request href (case language of None \<Rightarrow> ''en'' | Some l \<Rightarrow> l)) = ''POST''"
    by (simp add: summary_request_def Let_def)
next
  show "origin_path (req_url (summary_request href (case language of None \<Rightarrow> ''en'' | Some l \<Rightarrow> l))) =
      ''https://summarizer.dev.swisscows.com/summarize''"
    by (simp add: summary_request_def AI_ROUTE_def Let_def)
next
  show "searchParams (req_url (summary_request href (case language of None \<Rightarrow> ''en'' | Some l \<Rightarrow> l))) =
      [(''url'', href), (''language'', case language of None \<Rightarrow> ''en'' | Some l \<Rightarrow> l)]"
    by (simp add: summary_request_def AI_ROUTE_def Let_def)
qed

text \<open>
  On the browser-like host, \<^verbatim>\<open>example\<close> is no URL and \<^verbatim>\<open>https://example.com\<close>
  is sent as \<^verbatim>\<open>https://example.com/\<close>; the promise of that call fulfils with the body.
\<close>

theorem ai_summary_call_rejects_before_request_witness:
  "URL_parse browser ''example'' = None \<and>
   ai_summary_call browser ''example'' None = ([], Inr (RejectedWith TypeError)) \<and>
   URL_parse browser ''https://example.com'' = Some ''https://example.com/'' \<and>
   fst (ai_summary_call browser ''https://example.com'' None) =
     [summary_request ''https://example.com/'' ''en''] \<and>
   snd (ai_summary_call browser ''https://example.com'' None) =
     Inr (FulfilledWith (JStr ''A short summary.'')) \<and>
   searchParams (req_url (summary_request ''https://example.com/'' ''en'')) =
     [(''url'', ''https://example.com/''), (''language'', ''en'')]"
proof -
  have p1: "URL_parse browser ''example'' = None"
    by (simp add: browser_def browser_parse_def)
  have p2: "URL_parse browser ''https://example.com'' = Some ''https://example.com/''"
    by (simp add: browser_def browser_parse_def)
  have b: "snd (ai_summary browser ''https://example.com'' None) = Inr (JStr ''A short summary.'')"
    by (simp add: ai_summary_def browser_def browser_parse_def browser_fetch_def)
  from ai_summary_call_rejects_before_request
         [where h = browser and website = "''example''" and language = None]
       ai_summary_call_rejects_before_request
         [where h = browser and website = "''https://example.com''"
           and href = "''https://example.com/''" and language = None]
       p1 p2 b
  show ?thesis by (simp add: async_call_def)
qed

section \<open>The \<^verbatim>\<open>LOADED\<close> flag of a \<^verbatim>\<open>Screenshot\<close>\<close>

text \<open>
  The life of the flag has three phases: the probe pending, the probe settled with its
  reaction queued, and the reaction run. Each lemma below follows a run from one phase.
\<close>

lemma lookup_set_prop_same: "lookup (set_prop ps k v) k = v"
  by (induction ps) auto

lemma step_settled:
  assumes "probe s = Fulfilled b" and "reactions s = []"
  shows "probe (step e s) = Fulfilled b \<and> reactions (step e s) = [] \<and>
         LOADED_writes (step e s) = LOADED_writes s \<and> props (step e s) = props s"
  using assms by (cases e) (simp_all add: pass_def fail_def resolve_def)

lemma run_settled:
  assumes "probe s = Fulfilled b" and "reactions s = []"
  shows "LOADED_writes (run_events es s) = LOADED_writes s \<and> props (run_events es s) = props s"
  using assms
proof (induction es arbitrary: s)
  case Nil
  show ?case by simp
next
  case (Cons e es)
  from step_settled [OF Cons.prems] Cons.IH [of "step e s"] show ?case by simp
qed

lemma step_job_queued:
  assumes "probe s = Fulfilled b" and "reactions s = [b]" and "LOADED_writes s = []"
  shows "probe (step RunJob s) = Fulfilled b \<and> reactions (step RunJob s) = [] \<and>
         LOADED_writes (step RunJob s) = [b] \<and> lookup (props (step RunJob s)) ''LOADED'' = JBool b"
  using assms by (simp add: lookup_set_prop_same)

lemma step_image_queued:
  assumes "probe s = Fulfilled b" and "e \<noteq> RunJob"
  shows "probe (step e s) = Fulfilled b \<and> reactions (step e s) = reactions s \<and>
         LOADED_writes (step e s) = LOADED_writes s \<and> props (step e s) = props s"
  using assms by (cases e) (simp_all add: pass_def fail_def resolve_def)

lemma run_queued:
  assumes "probe s = Fulfilled b" and "reactions s = [b]" and "LOADED_writes s = []"
    and "lookup (props s) ''LOADED'' = JBool False"
  shows "(LOADED_writes (run_events es s) = [] \<and> lookup (props (run_events es s)) ''LOADED'' = JBool False) \<or>
         (LOADED_writes (run_events es s) = [b] \<and> lookup (props (run_events es s)) ''LOADED'' = JBool b)"
  using assms
proof (induction es arbitrary: s)
  case Nil
  then show ?case by simp
next
  case (Cons e es)
  show ?case
  proof (cases "e = RunJob")
    case True
    from step_job_queued [OF Cons.prems(1,2,3)]
    have t: "probe (step RunJob s) = Fulfilled b" "reactions (step RunJob s) = []"
      "LOADED_writes (step RunJob s) = [b]" "lookup (props (step RunJob s)) ''LOADED'' = JBool b"
      by simp_all
    from run_settled [OF t(1,2), of es] t(3,4) True show ?thesis by simp
  next
    case False
    from step_image_queued [OF Cons.prems(1) False] Cons.prems
    have "probe (step e s) = Fulfilled b" "reactions (step e s) = [b]" "LOADED_writes (step e s) = []"
      "lookup (props (step e s)) ''LOADED'' = JBool False"
      by simp_all
    from Cons.IH [OF this] show ?thesis by simp
  qed
qed

lemma run_pending:
  assumes "probe s = Pending" and "reactions s = []" and "LOADED_writes s = []"
    and "lookup (props s) ''LOADED'' = JBool False" and "img_src s \<noteq> None"
  shows "(LOADED_writes (run_events es s) = [] \<and> lookup (props (run_events es s)) ''LOADED'' = JBool False) \<or>
         (\<exists>b. probe_result es = Some b \<and> LOADED_writes (run_events es s) = [b] \<and>
              lookup (props (run_events es s)) ''LOADED'' = JBool b)"
  using assms
proof (induction es arbitrary: s)
  case Nil
  then show ?case by simp
next
  case (Cons e es)
  show ?case
  proof (cases e)
    case RunJob
    with Cons.prems have "step e s = s" by simp
    with Cons.IH [OF Cons.prems] RunJob show ?thesis by simp
  next
    case OnLoad
    with Cons.prems(5) have st: "step e s = pass s" by auto
    from Cons.prems have "probe (pass s) = Fulfilled True" "reactions (pass s) = [True]"
      "LOADED_writes (pass s) = []" "lookup (props (pass s)) ''LOADED'' = JBool False"
      by (simp_all add: pass_def resolve_def)
    from run_queued [OF this, of es] OnLoad st show ?thesis by auto
  next
    case OnError
    with Cons.prems(5) have st: "step e s = fail s" by auto
    from Cons.prems have "probe (fail s) = Fulfilled False" "reactions (fail s) = [False]"
      "LOADED_writes (fail s) = []" "lookup (props (fail s)) ''LOADED'' = JBool False"
      by (simp_all add: fail_def resolve_def)
    from run_queued [OF this, of es] OnError st show ?thesis by auto
  next
    case OnAbort
    with Cons.prems(5) have st: "step e s = fail s" by auto
    from Cons.prems have "probe (fail s) = Fulfilled False" "reactions (fail s) = [False]"
      "LOADED_writes (fail s) = []" "lookup (props (fail s)) ''LOADED'' = JBool False"
      by (simp_all add: fail_def resolve_def)
    from run_queued [OF this, of es] OnAbort st show ?thesis by auto
  qed
qed

lemma run_no_image:
  assumes "img_src s = None" and "reactions s = []"
  shows "run_events es s = s"
proof (induction es)
  case Nil
  show ?case by simp
next
  case (Cons e es)
  from assms have "step e s = s" by (cases e) simp_all
  with Cons.IH show ?case by simp
qed

lemma Screenshot_new_LOADED: "lookup (props (Screenshot_new h d)) ''LOADED'' = JBool False"
  by (simp add: Screenshot_new_def)

lemma run_fresh:
  "(LOADED_writes (run_events es (Screenshot_new h d)) = [] \<and>
      lookup (props (run_events es (Screenshot_new h d))) ''LOADED'' = JBool False) \<or>
   (\<exists>b. probe_result es = Some b \<and> LOADED_writes (run_events es (Screenshot_new h d)) = [b] \<and>
        lookup (props (run_events es (Screenshot_new h d))) ''LOADED'' = JBool b)"
proof (cases "has_Image h")
  case True
  then have "probe (Screenshot_new h d) = Pending" "reactions (Screenshot_new h d) = []"
    "LOADED_writes (Screenshot_new h d) = []"
    "lookup (props (Screenshot_new h d)) ''LOADED'' = JBool False"
    "img_src (Screenshot_new h d) \<noteq> None"
    by (simp_all add: Screenshot_new_def)
  from run_pending [OF this] show ?thesis .
next
  case False
  then have "img_src (Screenshot_new h d) = None" "reactions (Screenshot_new h d) = []"
    by (simp_all add: Screenshot_new_def)
  from run_no_image [OF this, of es] show ?thesis
    by (simp add: Screenshot_new_def)
qed

text \<open>
  C9. For every \<^verbatim>\<open>Screenshot\<close>, on every host and under every sequence of image
  events and job runs: \<^verbatim>\<open>LOADED\<close> is \<^verbatim>\<open>false\<close> at construction; it is assigned at
  most once afterwards; an assigned value is the result of the probe (\<^verbatim>\<open>true\<close> for
  \<^verbatim>\<open>onload\<close>, \<^verbatim>\<open>false\<close> for \<^verbatim>\<open>onerror\<close>/\<^verbatim>\<open>onabort\<close>, whichever the image
  fires first); and the flag holds that value, or \<^verbatim>\<open>false\<close> while nothing was assigned.
\<close>

theorem Screenshot_LOADED_at_most_one_transition:
  "lookup (props (Screenshot_new h d)) ''LOADED'' = JBool False \<and>
   length (LOADED_writes (run_events es (Screenshot_new h d))) \<le> 1 \<and>
   (\<forall>b \<in> set (LOADED_writes (run_events es (Screenshot_new h d))). probe_result es = Some b) \<and>
   lookup (props (run_events es (Screenshot_new h d))) ''LOADED'' =
     JBool (case LOADED_writes (run_events es (Screenshot_new h d)) of [] \<Rightarrow> False | b # bs \<Rightarrow> b)"
  using run_fresh [of es h d] Screenshot_new_LOADED [of h d] by auto

text \<open>
  An image that fires \<^verbatim>\<open>onerror\<close>, then \<^verbatim>\<open>onload\<close> and \<^verbatim>\<open>onabort\<close>: one
  assignment, of \<^verbatim>\<open>false\<close>.
\<close>

theorem Screenshot_LOADED_at_most_one_transition_witness:
  "LOADED_writes (run_events [OnError, OnLoad, RunJob, OnAbort, RunJob]
     (Screenshot_new browser (JStr ''data:image/png;base64,AAAA''))) = [False] \<and>
   probe_result [OnError, OnLoad, RunJob, OnAbort, RunJob] = Some False \<and>
   lookup (props (run_events [OnError, OnLoad, RunJob, OnAbort, RunJob]
     (Screenshot_new browser (JStr ''data:image/png;base64,AAAA'')))) ''LOADED'' = JBool False"
  using Screenshot_LOADED_at_most_one_transition
    [of browser "JStr ''data:image/png;base64,AAAA''" "[OnError, OnLoad, RunJob, OnAbort, RunJob]"]
  by (simp add: Screenshot_new_def browser_def pass_def fail_def resolve_def)

end
